theory Spec2Isabelle
  imports Complex_Main "HOL-Library.Sublist" "HOL-Library.AList"
begin

section \<open>Python strings\<close>

text \<open>
  A Python \<open>str\<close> is modelled as a \<open>string\<close> whose characters are the code points
  0..255 (Latin-1), so \<open>length\<close> is Python's \<open>len\<close>.  The character classes below are
  those of CPython on that range.  Python floats are modelled as exact rationals.
\<close>

definition isspace :: "char \<Rightarrow> bool" where
  "isspace c =
     (let n = (of_char c :: nat)
      in (9 \<le> n \<and> n \<le> 13) \<or> (28 \<le> n \<and> n \<le> 32) \<or> n = 133 \<or> n = 160)"

definition isalpha :: "char \<Rightarrow> bool" where
  "isalpha c =
     (let n = (of_char c :: nat)
      in (65 \<le> n \<and> n \<le> 90) \<or> (97 \<le> n \<and> n \<le> 122) \<or> n = 170 \<or> n = 181 \<or> n = 186
         \<or> (192 \<le> n \<and> n \<le> 214) \<or> (216 \<le> n \<and> n \<le> 246) \<or> 248 \<le> n)"

definition is_word_char :: "char \<Rightarrow> bool" where
  \<comment> \<open>the class \<open>\w\<close> of \<open>re\<close> on a \<open>str\<close> pattern: alphanumeric or underscore\<close>
  "is_word_char c =
     (let n = (of_char c :: nat)
      in isalpha c \<or> (48 \<le> n \<and> n \<le> 57) \<or> n = 95 \<or> n = 178 \<or> n = 179 \<or> n = 185
         \<or> (188 \<le> n \<and> n \<le> 190))"

definition lower_char :: "char \<Rightarrow> char" where
  "lower_char c =
     (let n = (of_char c :: nat)
      in if (65 \<le> n \<and> n \<le> 90) \<or> (192 \<le> n \<and> n \<le> 222 \<and> n \<noteq> 215)
         then char_of (n + 32) else c)"

definition lower :: "string \<Rightarrow> string" where
  "lower s = map lower_char s"

definition strip :: "string \<Rightarrow> string" where
  "strip s = rev (dropWhile isspace (rev (dropWhile isspace s)))"

fun split_from :: "string \<Rightarrow> string \<Rightarrow> string list" where
  \<comment> \<open>\<open>str.split()\<close>: the first argument is the word read so far\<close>
  "split_from cur [] = (if cur = [] then [] else [cur])"
| "split_from cur (c # cs) =
     (if isspace c then (if cur = [] then split_from [] cs else cur # split_from [] cs)
      else split_from (cur @ [c]) cs)"

definition split :: "string \<Rightarrow> string list" where
  "split s = split_from [] s"

fun contains :: "string \<Rightarrow> string \<Rightarrow> bool" where
  \<comment> \<open>\<open>contains hay needle\<close> is Python's \<open>needle in hay\<close>\<close>
  "contains [] needle = (needle = [])"
| "contains (h # hs) needle = (prefix needle (h # hs) \<or> contains hs needle)"

fun digits_of :: "nat \<Rightarrow> string" where
  "digits_of n =
     (if n < 10 then [char_of (48 + n)] else digits_of (n div 10) @ [char_of (48 + n mod 10)])"

declare digits_of.simps [simp del]

section \<open>models.py\<close>

record ParsedContract =
  raw_text :: string
  document_type :: string
  sections_identified :: "string list"

record AgentContext =
  document_structure :: string
  corresponding_sections :: "(string \<times> string) list"
  identified_change_areas :: "string list"
  context_summary :: string

record ContractChangeOutput =
  sections_changed :: "string list"
  topics_touched :: "string list"
  summary_of_the_change :: string

text \<open>
  One entry of a pydantic \<open>ValidationError\<close>: the field, and whether the declared
  \<open>min_length\<close> or the field validator (a \<open>ValueError\<close> with its message) rejected it.
\<close>

datatype error_item = too_short string | value_error string string

fun unique_loop :: "string list \<Rightarrow> string set \<Rightarrow> string list \<Rightarrow> string list" where
  \<comment> \<open>the loop of \<open>validate_sections\<close> and \<open>validate_topics\<close> over \<open>seen\<close> and the output list\<close>
  "unique_loop [] seen unique = unique"
| "unique_loop (x # xs) seen unique =
     (if x \<notin> seen then unique_loop xs (insert x seen) (unique @ [x])
      else unique_loop xs seen unique)"

definition validate_sections :: "string list \<Rightarrow> error_item + string list" where
  "validate_sections v =
     (if \<not> list_all (\<lambda>s. length (strip s) > 0) v
      then Inl (value_error ''sections_changed''
                  ''All section identifiers must be non-empty strings'')
      else Inr (unique_loop v {} []))"

definition validate_topics :: "string list \<Rightarrow> error_item + string list" where
  "validate_topics v =
     (if \<not> list_all (\<lambda>t. length (strip t) > 0) v
      then Inl (value_error ''topics_touched'' ''All topics must be non-empty strings'')
      else Inr (unique_loop v {} []))"

definition validate_summary :: "string \<Rightarrow> error_item + string" where
  "validate_summary v =
     (if length (strip v) < 100
      then Inl (value_error ''summary_of_the_change''
                  ''Summary must be at least 100 characters to provide adequate detail'')
      else Inr (strip v))"

text \<open>
  A field is checked against its \<open>Field(min_length=...)\<close> first; the field validator
  runs on a value that passed.
\<close>

definition field_sections_changed :: "string list \<Rightarrow> error_item + string list" where
  "field_sections_changed v =
     (if length v < 1 then Inl (too_short ''sections_changed'') else validate_sections v)"

definition field_topics_touched :: "string list \<Rightarrow> error_item + string list" where
  "field_topics_touched v =
     (if length v < 1 then Inl (too_short ''topics_touched'') else validate_topics v)"

definition field_summary_of_the_change :: "string \<Rightarrow> error_item + string" where
  "field_summary_of_the_change v =
     (if length v < 100 then Inl (too_short ''summary_of_the_change'') else validate_summary v)"

definition errors_of :: "error_item + 'a \<Rightarrow> error_item list" where
  "errors_of r = (case r of Inl e \<Rightarrow> [e] | Inr _ \<Rightarrow> [])"

definition new_ContractChangeOutput ::
  "string list \<Rightarrow> string list \<Rightarrow> string \<Rightarrow> error_item list + ContractChangeOutput" where
  \<comment> \<open>\<open>ContractChangeOutput(sections_changed=..., topics_touched=..., summary_of_the_change=...)\<close>:
      every field is validated and the errors of all fields are raised together\<close>
  "new_ContractChangeOutput secs tops summ =
     (case (field_sections_changed secs, field_topics_touched tops,
            field_summary_of_the_change summ) of
        (Inr s, Inr t, Inr m) \<Rightarrow>
          Inr \<lparr>sections_changed = s, topics_touched = t, summary_of_the_change = m\<rparr>
      | (rs, rt, rm) \<Rightarrow> Inl (errors_of rs @ errors_of rt @ errors_of rm))"

definition model_dump :: "ContractChangeOutput \<Rightarrow> string list \<times> string list \<times> string" where
  "model_dump c = (sections_changed c, topics_touched c, summary_of_the_change c)"

definition model_validate ::
  "string list \<times> string list \<times> string \<Rightarrow> error_item list + ContractChangeOutput" where
  "model_validate d = (case d of (secs, tops, summ) \<Rightarrow> new_ContractChangeOutput secs tops summ)"

definition first_occurrences :: "'a list \<Rightarrow> 'a list" where
  \<comment> \<open>the elements at the positions where a value occurs for the first time, in order\<close>
  "first_occurrences v =
     map (\<lambda>i. v ! i) (filter (\<lambda>i. v ! i \<notin> set (take i v)) [0..<length v])"

definition summary_100 :: string where
  "summary_100 = replicate 100 (CHR ''x'')"

fun firsts :: "'a set \<Rightarrow> 'a list \<Rightarrow> 'a list" where
  \<comment> \<open>auxiliary: the first occurrences in a list of the values outside \<open>seen\<close>\<close>
  "firsts seen [] = []"
| "firsts seen (x # xs) =
     (if x \<in> seen then firsts seen xs else x # firsts (insert x seen) xs)"

definition validate_document_type :: "string \<Rightarrow> error_item + string" where
  "validate_document_type v =
     (if lower v \<notin> set [''original'', ''amendment'']
      then Inl (value_error ''document_type''
                  ''document_type must be 'original' or 'amendment' '')
      else Inr (lower v))"

definition field_raw_text :: "string \<Rightarrow> error_item + string" where
  "field_raw_text v = (if length v < 50 then Inl (too_short ''raw_text'') else Inr v)"

definition new_ParsedContract ::
  "string \<Rightarrow> string \<Rightarrow> string list \<Rightarrow> error_item list + ParsedContract" where
  "new_ParsedContract text dtype secs =
     (case (field_raw_text text, validate_document_type dtype) of
        (Inr t, Inr d) \<Rightarrow>
          Inr \<lparr>raw_text = t, document_type = d, sections_identified = secs\<rparr>
      | (rt, rd) \<Rightarrow> Inl (errors_of rt @ errors_of rd))"

definition new_AgentContext ::
  "string \<Rightarrow> (string \<times> string) list \<Rightarrow> string list \<Rightarrow> string
     \<Rightarrow> error_item list + AgentContext" where
  "new_AgentContext structure mapping areas summ =
     (let e1 = (if length structure < 100 then [too_short ''document_structure''] else []);
          e2 = (if mapping = []
                then [value_error ''corresponding_sections''
                        ''corresponding_sections cannot be empty'']
                else []);
          e3 = (if length areas < 1 then [too_short ''identified_change_areas''] else []);
          e4 = (if length summ < 50 then [too_short ''context_summary''] else [])
      in if e1 @ e2 @ e3 @ e4 = []
         then Inr \<lparr>document_structure = structure, corresponding_sections = mapping,
                   identified_change_areas = areas, context_summary = summ\<rparr>
         else Inl (e1 @ e2 @ e3 @ e4))"

section \<open>Python values\<close>

text \<open>
  The dictionaries \<open>details\<close> of the guardrails and of the evaluator hold values of
  several Python types; an operation applied to a value of the wrong type raises.
\<close>

datatype pyval =
    PInt int
  | PFloat rat
  | PBool bool
  | PStr string
  | PList "pyval list"
  | PTuple "pyval list"
  | PDict "(string \<times> pyval) list"

datatype py_error = TypeError | KeyError | ZeroDivisionError

definition dict_get :: "(string \<times> 'v) list \<Rightarrow> string \<Rightarrow> 'v \<Rightarrow> 'v" where
  \<comment> \<open>\<open>d.get(key, default)\<close>\<close>
  "dict_get d k dflt = (case map_of d k of None \<Rightarrow> dflt | Some v \<Rightarrow> v)"

definition dict_item :: "(string \<times> 'v) list \<Rightarrow> string \<Rightarrow> py_error + 'v" where
  \<comment> \<open>\<open>d[key]\<close>\<close>
  "dict_item d k = (case map_of d k of None \<Rightarrow> Inl KeyError | Some v \<Rightarrow> Inr v)"

fun py_number :: "pyval \<Rightarrow> py_error + rat" where
  \<comment> \<open>the numeric value of an operand of \<open><\<close> or \<open>>\<close> against a number\<close>
  "py_number (PInt i) = Inr (of_int i)"
| "py_number (PFloat q) = Inr q"
| "py_number (PBool b) = Inr (if b then 1 else 0)"
| "py_number _ = Inl TypeError"

definition py_lt :: "pyval \<Rightarrow> rat \<Rightarrow> py_error + bool" where
  "py_lt v q = (case py_number v of Inl e \<Rightarrow> Inl e | Inr x \<Rightarrow> Inr (x < q))"

definition py_gt :: "pyval \<Rightarrow> rat \<Rightarrow> py_error + bool" where
  "py_gt v q = (case py_number v of Inl e \<Rightarrow> Inl e | Inr x \<Rightarrow> Inr (x > q))"

fun py_len :: "pyval \<Rightarrow> py_error + nat" where
  "py_len (PStr s) = Inr (length s)"
| "py_len (PList xs) = Inr (length xs)"
| "py_len (PTuple xs) = Inr (length xs)"
| "py_len (PDict kvs) = Inr (length kvs)"
| "py_len _ = Inl TypeError"

fun py_truth :: "pyval \<Rightarrow> bool" where
  "py_truth (PInt i) = (i \<noteq> 0)"
| "py_truth (PFloat q) = (q \<noteq> 0)"
| "py_truth (PBool b) = b"
| "py_truth (PStr s) = (s \<noteq> [])"
| "py_truth (PList xs) = (xs \<noteq> [])"
| "py_truth (PTuple xs) = (xs \<noteq> [])"
| "py_truth (PDict kvs) = (kvs \<noteq> [])"

section \<open>guardrails.py\<close>

record ContractGuardrails =
  min_text_length :: int
  max_text_length :: int
  max_file_size_mb :: rat
  allowed_extensions :: "string list"

definition new_ContractGuardrails ::
  "int \<Rightarrow> int \<Rightarrow> rat \<Rightarrow> string list option \<Rightarrow> ContractGuardrails" where
  "new_ContractGuardrails lo hi mb exts =
     \<lparr>min_text_length = lo, max_text_length = hi, max_file_size_mb = mb,
      allowed_extensions =
        (case exts of
           None \<Rightarrow> [''.jpg'', ''.jpeg'', ''.png'', ''.pdf'']
         | Some l \<Rightarrow> if l = [] then [''.jpg'', ''.jpeg'', ''.png'', ''.pdf''] else l)\<rparr>"

definition default_guardrails :: ContractGuardrails where
  \<comment> \<open>\<open>ContractGuardrails()\<close>\<close>
  "default_guardrails = new_ContractGuardrails 50 50000 10 None"

text \<open>
  What the guardrails read from outside the program: the file system (\<open>pathlib\<close>,
  \<open>os.path\<close>), the image library, and the number of matches of each compiled pattern
  of \<open>sensitive_patterns\<close> in a text.  A failing call returns the exception's text.
\<close>

record environment =
  path_exists :: "string \<Rightarrow> bool"
  path_suffix :: "string \<Rightarrow> string"
  image_open :: "string \<Rightarrow> string + (nat \<times> nat) \<times> string"
  getsize :: "string \<Rightarrow> string + nat"
  findall_count :: "string \<Rightarrow> string \<Rightarrow> nat"

text \<open>The messages appended to \<open>warnings\<close> and \<open>errors\<close>, with the values they interpolate.\<close>

datatype message =
    TextTooShort nat int
  | TextTooLong nat int
  | TooFewWords nat
  | UnusualAverageWordLength rat
  | LowAlphabeticRatio rat
  | NoSectionsIdentified
  | DuplicateSections
  | PydanticValidationFailed "error_item list"
  | FileNotFound string
  | InvalidFileExtension string "string list"
  | CannotOpenImage string
  | FileTooLarge rat rat
  | CouldNotCheckFileSize string
  | SensitiveDataDetected "string list"
  | NoSectionsChanged
  | NoTopicsIdentified
  | SummaryTooShort
  | TopicsNotInSource

definition text_too_short_text :: "nat \<Rightarrow> nat \<Rightarrow> string" where
  \<comment> \<open>the text of \<open>TextTooShort\<close> for a non-negative minimum\<close>
  "text_too_short_text n lo =
     ''Text too short ('' @ digits_of n @ '' chars, minimum '' @ digits_of lo @ '')''"

record validation =
  is_valid :: bool
  checks_passed :: nat
  total_checks :: nat
  warnings :: "message list"
  errors :: "message list"
  details :: "(string \<times> pyval) list"

definition check_text_length ::
  "ContractGuardrails \<Rightarrow> ParsedContract \<Rightarrow> validation \<Rightarrow> validation" where
  "check_text_length g contract results =
     (let r1 = results\<lparr>total_checks := total_checks results + 1\<rparr>;
          text_length = length (raw_text contract);
          r2 = r1\<lparr>details := AList.update ''text_length'' (PInt (int text_length)) (details r1)\<rparr>
      in if int text_length < min_text_length g
         then r2\<lparr>errors := errors r2 @ [TextTooShort text_length (min_text_length g)]\<rparr>
         else if int text_length > max_text_length g
         then r2\<lparr>errors := errors r2 @ [TextTooLong text_length (max_text_length g)]\<rparr>
         else r2\<lparr>checks_passed := checks_passed r2 + 1\<rparr>)"

definition check_text_quality :: "ParsedContract \<Rightarrow> validation \<Rightarrow> validation" where
  "check_text_quality contract results =
     (let r1 = results\<lparr>total_checks := total_checks results + 1\<rparr>;
          text = raw_text contract;
          words = split text;
          word_count = length words;
          r2 = r1\<lparr>details := AList.update ''word_count'' (PInt (int word_count)) (details r1)\<rparr>
      in if word_count < 20
         then r2\<lparr>errors := errors r2 @ [TooFewWords word_count]\<rparr>
         else
           (let avg_word_length =
                  (of_nat (sum_list (map length words)) :: rat) / of_nat (length words);
                r3 = r2\<lparr>details :=
                        AList.update ''avg_word_length'' (PFloat avg_word_length) (details r2)\<rparr>;
                r4 = (if avg_word_length < 2 \<or> avg_word_length > 20
                      then r3\<lparr>warnings := warnings r3 @ [UnusualAverageWordLength avg_word_length]\<rparr>
                      else r3);
                alpha_chars = length (filter isalpha text);
                alpha_ratio =
                  (if text \<noteq> [] then PFloat (of_nat alpha_chars / of_nat (length text))
                   else PInt 0);
                r5 = r4\<lparr>details := AList.update ''alpha_ratio'' alpha_ratio (details r4)\<rparr>;
                r6 = (case py_number alpha_ratio of
                        Inr a \<Rightarrow>
                          if a < 1 / 2 then r5\<lparr>warnings := warnings r5 @ [LowAlphabeticRatio a]\<rparr>
                          else r5
                      | Inl _ \<Rightarrow> r5)
            in r6\<lparr>checks_passed := checks_passed r6 + 1\<rparr>))"

definition check_sections :: "ParsedContract \<Rightarrow> validation \<Rightarrow> validation" where
  "check_sections contract results =
     (let r1 = results\<lparr>total_checks := total_checks results + 1\<rparr>;
          sections = sections_identified contract;
          r2 = r1\<lparr>details :=
                  AList.update ''sections_count'' (PInt (int (length sections))) (details r1)\<rparr>;
          r3 = (if length sections = 0
                then r2\<lparr>warnings := warnings r2 @ [NoSectionsIdentified]\<rparr> else r2);
          r4 = (if length sections \<noteq> card (set sections)
                then r3\<lparr>warnings := warnings r3 @ [DuplicateSections]\<rparr> else r3)
      in r4\<lparr>checks_passed := checks_passed r4 + 1\<rparr>)"

definition check_pydantic_model :: "ParsedContract \<Rightarrow> validation \<Rightarrow> validation" where
  "check_pydantic_model contract results =
     (let r1 = results\<lparr>total_checks := total_checks results + 1\<rparr>
      in case new_ParsedContract (raw_text contract) (document_type contract)
                (sections_identified contract) of
           Inr _ \<Rightarrow> r1\<lparr>checks_passed := checks_passed r1 + 1\<rparr>
         | Inl e \<Rightarrow> r1\<lparr>errors := errors r1 @ [PydanticValidationFailed e]\<rparr>)"

definition check_file_integrity ::
  "ContractGuardrails \<Rightarrow> environment \<Rightarrow> string \<Rightarrow> validation \<Rightarrow> validation" where
  "check_file_integrity g env file_path results =
     (let r1 = results\<lparr>total_checks := total_checks results + 1\<rparr>
      in if \<not> path_exists env file_path
         then r1\<lparr>errors := errors r1 @ [FileNotFound file_path]\<rparr>
         else
           (let extension = lower (path_suffix env file_path);
                r2 = r1\<lparr>details :=
                        AList.update ''file_extension'' (PStr extension) (details r1)\<rparr>
            in if extension \<notin> set (allowed_extensions g)
               then r2\<lparr>errors := errors r2 @
                        [InvalidFileExtension extension (allowed_extensions g)]\<rparr>
               else if extension \<in> set [''.jpg'', ''.jpeg'', ''.png'']
               then (case image_open env file_path of
                       Inr ((w, h), mode) \<Rightarrow>
                         (let r3 = r2\<lparr>details :=
                                 AList.update ''image_mode'' (PStr mode)
                                   (AList.update ''image_size''
                                      (PTuple [PInt (int w), PInt (int h)]) (details r2))\<rparr>
                          in r3\<lparr>checks_passed := checks_passed r3 + 1\<rparr>)
                     | Inl e \<Rightarrow> r2\<lparr>errors := errors r2 @ [CannotOpenImage e]\<rparr>)
               else r2\<lparr>checks_passed := checks_passed r2 + 1\<rparr>))"

definition check_file_size ::
  "ContractGuardrails \<Rightarrow> environment \<Rightarrow> string \<Rightarrow> validation \<Rightarrow> validation" where
  "check_file_size g env file_path results =
     (let r1 = results\<lparr>total_checks := total_checks results + 1\<rparr>
      in case getsize env file_path of
           Inr file_size_bytes \<Rightarrow>
             (let file_size_mb = (of_nat file_size_bytes :: rat) / (1024 * 1024);
                  r2 = r1\<lparr>details :=
                          AList.update ''file_size_mb'' (PFloat file_size_mb) (details r1)\<rparr>
              in if file_size_mb > max_file_size_mb g
                 then r2\<lparr>errors := errors r2 @
                          [FileTooLarge file_size_mb (max_file_size_mb g)]\<rparr>
                 else r2\<lparr>checks_passed := checks_passed r2 + 1\<rparr>)
         | Inl e \<Rightarrow> r1\<lparr>warnings := warnings r1 @ [CouldNotCheckFileSize e]\<rparr>)"

definition sensitive_found ::
  "environment \<Rightarrow> string \<Rightarrow> (string \<times> pyval) list" where
  \<comment> \<open>the loop over \<open>sensitive_patterns\<close>, in the order the dictionary was written\<close>
  "sensitive_found env text =
     map (\<lambda>k. (k, PInt (int (findall_count env k text))))
       (filter (\<lambda>k. findall_count env k text \<noteq> 0)
          [''ssn'', ''credit_card'', ''email'', ''phone''])"

definition check_sensitive_data ::
  "environment \<Rightarrow> ParsedContract \<Rightarrow> validation \<Rightarrow> validation" where
  "check_sensitive_data env contract results =
     (let found = sensitive_found env (raw_text contract)
      in if found \<noteq> []
         then results\<lparr>details :=
                 AList.update ''sensitive_data_detected'' (PDict found) (details results),
                warnings := warnings results @ [SensitiveDataDetected (map fst found)]\<rparr>
         else results)"

definition validate_input ::
  "ContractGuardrails \<Rightarrow> environment \<Rightarrow> ParsedContract \<Rightarrow> string option \<Rightarrow> validation" where
  "validate_input g env contract file_path =
     (let r0 = \<lparr>is_valid = True, checks_passed = 0, total_checks = 0, warnings = [],
                errors = [], details = []\<rparr>;
          r1 = check_text_length g contract r0;
          r2 = check_text_quality contract r1;
          r3 = check_sections contract r2;
          r4 = check_pydantic_model contract r3;
          r5 = (case file_path of
                  None \<Rightarrow> r4
                | Some p \<Rightarrow>
                    if p \<noteq> [] then check_file_size g env p (check_file_integrity g env p r4)
                    else r4);
          r6 = check_sensitive_data env contract r5
      in r6\<lparr>is_valid := (length (errors r6) = 0)\<rparr>)"

definition validate_output ::
  "ContractChangeOutput \<Rightarrow> ParsedContract \<Rightarrow> ParsedContract \<Rightarrow> validation" where
  "validate_output output original_contract amendment_contract =
     (let r0 = \<lparr>is_valid = True, checks_passed = 0, total_checks = 0, warnings = [],
                errors = [], details = []\<rparr>;
          r1 = r0\<lparr>total_checks := total_checks r0 + 1\<rparr>;
          r2 = (if length (sections_changed output) = 0
                then r1\<lparr>warnings := warnings r1 @ [NoSectionsChanged]\<rparr>
                else r1\<lparr>checks_passed := checks_passed r1 + 1\<rparr>);
          r3 = r2\<lparr>total_checks := total_checks r2 + 1\<rparr>;
          r4 = (if length (topics_touched output) = 0
                then r3\<lparr>warnings := warnings r3 @ [NoTopicsIdentified]\<rparr>
                else r3\<lparr>checks_passed := checks_passed r3 + 1\<rparr>);
          r5 = r4\<lparr>total_checks := total_checks r4 + 1\<rparr>;
          r6 = (if length (summary_of_the_change output) < 100
                then r5\<lparr>errors := errors r5 @ [SummaryTooShort]\<rparr>
                else r5\<lparr>checks_passed := checks_passed r5 + 1\<rparr>);
          r7 = r6\<lparr>total_checks := total_checks r6 + 1\<rparr>;
          combined_text = raw_text original_contract @ raw_text amendment_contract;
          topics_found =
            length (filter (\<lambda>topic. contains (lower combined_text) (lower topic))
                      (topics_touched output));
          r8 = (if topics_found = 0 \<and> length (topics_touched output) > 0
                then r7\<lparr>warnings := warnings r7 @ [TopicsNotInSource]\<rparr>
                else r7\<lparr>checks_passed := checks_passed r7 + 1\<rparr>)
      in r8\<lparr>is_valid := (length (errors r8) = 0)\<rparr>)"


section \<open>agents/extraction_agent.py\<close>

fun before_first :: "string \<Rightarrow> string \<Rightarrow> string" where
  \<comment> \<open>\<open>s.split(sep)[0]\<close> for a non-empty separator\<close>
  "before_first sep [] = []"
| "before_first sep (c # cs) = (if prefix sep (c # cs) then [] else c # before_first sep cs)"






section \<open>evaluator.py\<close>

record evaluation =
  timestamp :: string
  dimension_scores :: "(string \<times> rat) list"
  overall_score :: rat
  grade :: string
  recommendations :: "string list"
  eval_details :: "(string \<times> pyval) list"

definition clamp_score :: "rat \<Rightarrow> rat" where
  \<comment> \<open>\<open>max(0.0, min(100.0, score))\<close>\<close>
  "clamp_score score = max 0 (min 100 score)"

definition ratio_or_zero :: "nat \<Rightarrow> 'a list \<Rightarrow> pyval" where
  \<comment> \<open>\<open>count / len(xs) if xs else 0\<close>\<close>
  "ratio_or_zero n xs = (if xs \<noteq> [] then PFloat (of_nat n / of_nat (length xs)) else PInt 0)"

fun number_of :: "pyval \<Rightarrow> rat" where
  \<comment> \<open>the value of a number in arithmetic\<close>
  "number_of (PInt i) = of_int i"
| "number_of (PFloat q) = q"
| "number_of _ = 0"

definition evaluate_completeness ::
  "ContractChangeOutput \<Rightarrow> AgentContext \<Rightarrow> evaluation \<Rightarrow> evaluation" where
  "evaluate_completeness changes context results =
     (let score0 = (100 :: rat);
          identified_areas = length (identified_change_areas context);
          n_sections_changed = length (sections_changed changes);
          d1 = AList.update ''identified_change_areas'' (PInt (int identified_areas))
                 (eval_details results);
          d2 = AList.update ''sections_changed'' (PInt (int n_sections_changed)) d1;
          ratio = (of_nat n_sections_changed :: rat) / of_nat identified_areas;
          score1 = (if n_sections_changed < identified_areas then score0 * ratio else score0);
          d3 = (if n_sections_changed < identified_areas
                then AList.update ''coverage_ratio'' (PFloat ratio) d2
                else AList.update ''coverage_ratio'' (PFloat 1) d2);
          score2 = (if n_sections_changed = 0 then 0 else score1);
          score3 = (if length (topics_touched changes) = 0 then score2 * (1 / 2) else score2);
          summary_length = length (summary_of_the_change changes);
          score4 = (if summary_length < 200 then score3 * (7 / 10)
                    else if summary_length < 100 then score3 * (3 / 10)
                    else score3)
      in results\<lparr>dimension_scores :=
                   AList.update ''completeness'' (clamp_score score4) (dimension_scores results),
                 eval_details := d3\<rparr>)"

definition section_key :: "string \<Rightarrow> string" where
  \<comment> \<open>\<open>re.sub(r'[^\w\s.-]', '', section.lower())\<close>\<close>
  "section_key section =
     filter (\<lambda>c. is_word_char c \<or> isspace c \<or> c = CHR ''.'' \<or> c = CHR ''-'') (lower section)"

definition evaluate_accuracy ::
  "ContractChangeOutput \<Rightarrow> ParsedContract \<Rightarrow> ParsedContract \<Rightarrow> evaluation \<Rightarrow> evaluation" where
  "evaluate_accuracy changes original_contract amendment_contract results =
     (let combined_text =
            lower (raw_text original_contract) @ '' '' @ lower (raw_text amendment_contract);
          section_found_count =
            length (filter (\<lambda>section. contains combined_text (section_key section))
                      (sections_changed changes));
          section_accuracy = ratio_or_zero section_found_count (sections_changed changes);
          d1 = AList.update ''section_accuracy'' section_accuracy (eval_details results);
          topic_found_count =
            length (filter
                      (\<lambda>topic. list_ex (\<lambda>word. contains combined_text word)
                                 (filter (\<lambda>word. length word > 3) (split (lower topic))))
                      (topics_touched changes));
          topic_relevance = ratio_or_zero topic_found_count (topics_touched changes);
          d2 = AList.update ''topic_relevance'' topic_relevance d1;
          score = (number_of section_accuracy * (6 / 10) + number_of topic_relevance * (4 / 10))
                    * 100
      in results\<lparr>dimension_scores :=
                   AList.update ''accuracy'' (clamp_score score) (dimension_scores results),
                 eval_details := d2\<rparr>)"

fun re_split_from :: "(char \<Rightarrow> bool) \<Rightarrow> bool \<Rightarrow> string \<Rightarrow> string \<Rightarrow> string list" where
  \<comment> \<open>\<open>re.split\<close> on the runs of the characters of a class: whether a run is being
      read, the piece read so far, the rest\<close>
  "re_split_from sep in_run cur [] = [cur]"
| "re_split_from sep in_run cur (c # cs) =
     (if sep c then (if in_run then re_split_from sep True [] cs
                     else cur # re_split_from sep True [] cs)
      else re_split_from sep False (cur @ [c]) cs)"

definition split_sentences :: "string \<Rightarrow> string list" where
  \<comment> \<open>\<open>re.split(r'[.!?]+', summary)\<close> and the comprehension that strips the pieces and
      drops the empty ones\<close>
  "split_sentences summary =
     map strip
       (filter (\<lambda>s. strip s \<noteq> [])
          (re_split_from (\<lambda>c. c \<in> set ''.!?'') False [] summary))"

definition structure_indicators :: "string list" where
  "structure_indicators =
     [''first'', ''second'', ''third'', ''finally'',
      ''additionally'', ''furthermore'', ''moreover'',
      ''however'', ''therefore'', ''consequently'']"

definition evaluate_clarity :: "ContractChangeOutput \<Rightarrow> evaluation \<Rightarrow> evaluation" where
  "evaluate_clarity changes results =
     (let score0 = (100 :: rat);
          summary = summary_of_the_change changes;
          sentences = split_sentences summary;
          d1 = AList.update ''sentence_count'' (PInt (int (length sentences)))
                 (eval_details results);
          score1 = (if length sentences = 1 then score0 * (7 / 10) else score0);
          avg_sentence_length =
            (of_nat (sum_list (map (\<lambda>s. length (split s)) sentences)) :: rat)
              / of_nat (length sentences);
          d2 = (if sentences \<noteq> []
                then AList.update ''avg_sentence_length'' (PFloat avg_sentence_length) d1
                else d1);
          score2 = (if sentences \<noteq> [] \<and> (avg_sentence_length < 10 \<or> avg_sentence_length > 50)
                    then score1 * (8 / 10) else score1);
          has_structure =
            list_ex (\<lambda>indicator. contains (lower summary) indicator) structure_indicators;
          d3 = AList.update ''has_structure_indicators'' (PBool has_structure) d2;
          score3 = (if \<not> has_structure \<and> length sentences > 2 then score2 * (9 / 10)
                    else score2)
      in results\<lparr>dimension_scores :=
                   AList.update ''clarity'' (clamp_score score3) (dimension_scores results),
                 eval_details := d3\<rparr>)"

definition generic_topics :: "string list" where
  "generic_topics =
     [''general'', ''miscellaneous'', ''other'', ''various'',
      ''changes'', ''updates'', ''modifications'']"

definition evaluate_relevance ::
  "ContractChangeOutput \<Rightarrow> ParsedContract \<Rightarrow> ParsedContract \<Rightarrow> evaluation \<Rightarrow> evaluation" where
  "evaluate_relevance changes original_contract amendment_contract results =
     (let score0 = (100 :: rat);
          generic_count =
            length (filter (\<lambda>topic. list_ex (\<lambda>gen. contains (lower topic) gen) generic_topics)
                      (topics_touched changes));
          generic_ratio =
            (of_nat generic_count :: rat) / of_nat (length (topics_touched changes));
          score1 = (if generic_count > 0 then score0 * (1 - generic_ratio * (3 / 10))
                    else score0);
          d1 = AList.update ''generic_topics_count'' (PInt (int generic_count))
                 (eval_details results);
          broad =
            list_ex (\<lambda>section. lower section \<in>
                                  set [''all sections'', ''entire document'', ''whole contract''])
              (sections_changed changes);
          score2 = (if broad then score1 * (1 / 2) else score1);
          d2 = AList.update ''overly_broad_sections'' (PBool broad) d1;
          n_topics = length (topics_touched changes);
          n_sections = length (sections_changed changes);
          score3 = (if n_topics > n_sections * 2 then score2 * (8 / 10)
                    else if (of_nat n_topics :: rat) < of_nat n_sections * (1 / 2)
                    then score2 * (9 / 10)
                    else score2)
      in results\<lparr>dimension_scores :=
                   AList.update ''relevance'' (clamp_score score3) (dimension_scores results),
                 eval_details := d2\<rparr>)"

definition mentioned_in :: "string \<Rightarrow> string \<Rightarrow> bool" where
  \<comment> \<open>\<open>any(word.lower() in text for word in item.split() if len(word) > 3)\<close>\<close>
  "mentioned_in text item =
     list_ex (\<lambda>word. contains text (lower word)) (filter (\<lambda>word. length word > 3) (split item))"

definition evaluate_consistency ::
  "ContractChangeOutput \<Rightarrow> AgentContext \<Rightarrow> evaluation \<Rightarrow> evaluation" where
  "evaluate_consistency changes context results =
     (let summary_lower = lower (summary_of_the_change changes);
          sections_in_summary =
            length (filter (mentioned_in summary_lower) (sections_changed changes));
          section_summary_consistency =
            ratio_or_zero sections_in_summary (sections_changed changes);
          d1 = AList.update ''section_summary_consistency'' section_summary_consistency
                 (eval_details results);
          topics_in_summary =
            length (filter (mentioned_in summary_lower) (topics_touched changes));
          topic_summary_consistency = ratio_or_zero topics_in_summary (topics_touched changes);
          d2 = AList.update ''topic_summary_consistency'' topic_summary_consistency d1;
          context_lower = lower (context_summary context);
          changes_align_with_context =
            length (filter (mentioned_in context_lower) (sections_changed changes));
          context_consistency =
            ratio_or_zero changes_align_with_context (sections_changed changes);
          d3 = AList.update ''context_consistency'' context_consistency d2;
          score = (number_of section_summary_consistency * (4 / 10)
                   + number_of topic_summary_consistency * (3 / 10)
                   + number_of context_consistency * (3 / 10)) * 100
      in results\<lparr>dimension_scores :=
                   AList.update ''consistency'' (clamp_score score) (dimension_scores results),
                 eval_details := d3\<rparr>)"

definition assign_grade :: "rat \<Rightarrow> string" where
  "assign_grade score =
     (if score \<ge> 90 then ''A''
      else if score \<ge> 80 then ''B''
      else if score \<ge> 70 then ''C''
      else if score \<ge> 60 then ''D''
      else ''F'')"

text \<open>
  \<open>_generate_recommendations\<close> looks values up in \<open>dimension_scores\<close> and \<open>details\<close> and
  applies \<open><\<close>, \<open>>\<close>, \<open>not\<close> and \<open>len\<close> to them, each of which can raise.  A guarded
  \<open>append\<close> is one step on the list built so far.
\<close>

definition then_do :: "py_error + 'a \<Rightarrow> ('a \<Rightarrow> py_error + 'b) \<Rightarrow> py_error + 'b" where
  "then_do r f = (case r of Inl e \<Rightarrow> Inl e | Inr v \<Rightarrow> f v)"

definition append_if :: "py_error + bool \<Rightarrow> string \<Rightarrow> string list \<Rightarrow> py_error + string list" where
  \<comment> \<open>\<open>if cond: recommendations.append(text)\<close>\<close>
  "append_if cond text recs = then_do cond (\<lambda>b. Inr (if b then recs @ [text] else recs))"

definition below_70 :: "(string \<times> rat) list \<Rightarrow> string \<Rightarrow> py_error + bool" where
  \<comment> \<open>\<open>scores[name] < 70\<close>\<close>
  "below_70 scores name = then_do (dict_item scores name) (\<lambda>v. Inr (v < 70))"

definition completeness_recommendations ::
  "(string \<times> rat) list \<Rightarrow> (string \<times> pyval) list \<Rightarrow> string list \<Rightarrow> py_error + string list" where
  "completeness_recommendations scores dets recs =
     then_do (below_70 scores ''completeness'') (\<lambda>low.
       if low then
         then_do (append_if (py_lt (dict_get dets ''coverage_ratio'' (PFloat 1)) 1)
                    ''Ensure all identified change areas are covered in the extraction'' recs)
           (\<lambda>recs1.
              append_if
                (then_do (py_len (dict_get dets ''sections_changed'' (PList [])))
                   (\<lambda>n. Inr (n = 0)))
                ''No sections identified - review the extraction logic'' recs1)
       else Inr recs)"

definition accuracy_recommendations ::
  "(string \<times> rat) list \<Rightarrow> (string \<times> pyval) list \<Rightarrow> string list \<Rightarrow> py_error + string list" where
  "accuracy_recommendations scores dets recs =
     then_do (below_70 scores ''accuracy'') (\<lambda>low.
       if low then
         then_do (append_if (py_lt (dict_get dets ''section_accuracy'' (PFloat 1)) (7 / 10))
                    ''Some sections do not appear in source documents - verify section references''
                    recs)
           (\<lambda>recs1.
              append_if (py_lt (dict_get dets ''topic_relevance'' (PFloat 1)) (7 / 10))
                ''Topics may not be well-grounded in document content - improve topic extraction''
                recs1)
       else Inr recs)"

definition clarity_recommendations ::
  "(string \<times> rat) list \<Rightarrow> (string \<times> pyval) list \<Rightarrow> string list \<Rightarrow> py_error + string list" where
  "clarity_recommendations scores dets recs =
     then_do (below_70 scores ''clarity'') (\<lambda>low.
       if low then
         then_do (append_if
                    (Inr (\<not> py_truth (dict_get dets ''has_structure_indicators'' (PBool False))))
                    ''Add structure indicators (First, Second, Additionally) to improve summary clarity''
                    recs)
           (\<lambda>recs1.
              append_if (py_gt (dict_get dets ''avg_sentence_length'' (PInt 20)) 50)
                ''Break long sentences into shorter, clearer statements'' recs1)
       else Inr recs)"

definition relevance_recommendations ::
  "(string \<times> rat) list \<Rightarrow> (string \<times> pyval) list \<Rightarrow> string list \<Rightarrow> py_error + string list" where
  "relevance_recommendations scores dets recs =
     then_do (below_70 scores ''relevance'') (\<lambda>low.
       if low then
         then_do (append_if (py_gt (dict_get dets ''generic_topics_count'' (PInt 0)) 0)
                    ''Replace generic topics with more specific business/legal concepts'' recs)
           (\<lambda>recs1.
              append_if (Inr (py_truth (dict_get dets ''overly_broad_sections'' (PBool False))))
                ''Identify specific sections rather than broad references'' recs1)
       else Inr recs)"

definition consistency_recommendations ::
  "(string \<times> rat) list \<Rightarrow> (string \<times> pyval) list \<Rightarrow> string list \<Rightarrow> py_error + string list" where
  "consistency_recommendations scores dets recs =
     then_do (below_70 scores ''consistency'') (\<lambda>low.
       if low then
         then_do (append_if
                    (py_lt (dict_get dets ''section_summary_consistency'' (PFloat 1)) (1 / 2))
                    ''Ensure all sections are explicitly mentioned in the summary'' recs)
           (\<lambda>recs1.
              append_if (py_lt (dict_get dets ''topic_summary_consistency'' (PFloat 1)) (1 / 2))
                ''Ensure all topics are discussed in the summary'' recs1)
       else Inr recs)"

definition generate_recommendations :: "evaluation \<Rightarrow> py_error + evaluation" where
  "generate_recommendations results =
     (let scores = dimension_scores results; dets = eval_details results
      in then_do (completeness_recommendations scores dets []) (\<lambda>r1.
         then_do (accuracy_recommendations scores dets r1) (\<lambda>r2.
         then_do (clarity_recommendations scores dets r2) (\<lambda>r3.
         then_do (relevance_recommendations scores dets r3) (\<lambda>r4.
         then_do (consistency_recommendations scores dets r4) (\<lambda>r5.
         Inr (results\<lparr>recommendations := r5\<rparr>)))))))"

definition initial_results :: "string \<Rightarrow> evaluation" where
  \<comment> \<open>the dictionary \<open>results\<close> that \<open>evaluate_output\<close> starts from\<close>
  "initial_results now =
     \<lparr>timestamp = now, dimension_scores = [], overall_score = 0, grade = [],
      recommendations = [], eval_details = []\<rparr>"

definition run_dimensions ::
  "string \<Rightarrow> ContractChangeOutput \<Rightarrow> ParsedContract \<Rightarrow> ParsedContract \<Rightarrow> AgentContext
     \<Rightarrow> evaluation" where
  \<comment> \<open>\<open>evaluate_output\<close> up to the last of the five dimensions; the first argument is
      the clock reading\<close>
  "run_dimensions now changes original_contract amendment_contract context =
     (let r0 = initial_results now;
          r1 = evaluate_completeness changes context r0;
          r2 = evaluate_accuracy changes original_contract amendment_contract r1;
          r3 = evaluate_clarity changes r2;
          r4 = evaluate_relevance changes original_contract amendment_contract r3
      in evaluate_consistency changes context r4)"

definition aggregate :: "evaluation \<Rightarrow> py_error + evaluation" where
  \<comment> \<open>\<open>evaluate_output\<close>: the overall score and the grade\<close>
  "aggregate results =
     (let scores = dimension_scores results
      in if length scores = 0 then Inl ZeroDivisionError
         else
           (let r1 = results\<lparr>overall_score :=
                        foldl (+) 0 (map snd scores) / of_nat (length scores)\<rparr>
            in Inr (r1\<lparr>grade := assign_grade (overall_score r1)\<rparr>)))"

definition evaluate_output ::
  "string \<Rightarrow> ContractChangeOutput \<Rightarrow> ParsedContract \<Rightarrow> ParsedContract \<Rightarrow> AgentContext
     \<Rightarrow> py_error + evaluation" where
  "evaluate_output now changes original_contract amendment_contract context =
     then_do (aggregate (run_dimensions now changes original_contract amendment_contract context))
       generate_recommendations"

section \<open>Example inputs\<close>

text \<open>
  A small contract and its amendment, the context of the first agent, and two outputs
  of the second agent: one covering both change areas, one covering only the first.
\<close>

definition example_original_text :: string where
  "example_original_text =
     ''Section 2.1 - Payment Terms. The buyer shall pay each invoice within thirty days. '' @
     ''Section 4.3 - Confidentiality. Each party keeps the terms secret for two years.''"

definition example_amendment_text :: string where
  "example_amendment_text =
     ''Section 2.1 - Payment Terms. The buyer shall pay each invoice within forty-five days. '' @
     ''Section 4.3 - Confidentiality. Each party keeps the terms secret for five years.''"

definition example_original :: ParsedContract where
  "example_original =
     \<lparr>raw_text = example_original_text, document_type = ''original'',
      sections_identified =
        [''Section 2.1 - Payment Terms'', ''Section 4.3 - Confidentiality'']\<rparr>"

definition example_amendment :: ParsedContract where
  "example_amendment =
     \<lparr>raw_text = example_amendment_text, document_type = ''amendment'',
      sections_identified =
        [''Section 2.1 - Payment Terms'', ''Section 4.3 - Confidentiality'']\<rparr>"

definition example_structure :: string where
  "example_structure =
     ''Both documents are organised in numbered sections, each with a heading and one '' @
     ''or two sentences of terms.''"

definition example_context :: AgentContext where
  "example_context =
     \<lparr>document_structure = example_structure,
      corresponding_sections =
        [(''Section 2.1'', ''Section 2.1''), (''Section 4.3'', ''Section 4.3'')],
      identified_change_areas =
        [''Section 2.1 - Payment Terms'', ''Section 4.3 - Confidentiality''],
      context_summary =
        ''The amendment revises the payment terms section and the confidentiality section.''\<rparr>"

definition example_summary :: string where
  "example_summary =
     ''The amendment changes two parts of the agreement between the buyer and the seller. '' @
     ''First, the section on payment terms now gives the buyer forty-five days instead of '' @
     ''thirty days to pay each invoice. Second, the section on confidentiality now keeps '' @
     ''the duration of the duty at five years instead of two years.''"


definition example_partial_changes :: ContractChangeOutput where
  "example_partial_changes =
     \<lparr>sections_changed = [''Section 2.1 - Payment Terms''],
      topics_touched = [''Payment Period''],
      summary_of_the_change = example_summary\<rparr>"



definition no_files :: environment where
  \<comment> \<open>no file exists and no pattern matches\<close>
  "no_files =
     \<lparr>path_exists = (\<lambda>_. False), path_suffix = (\<lambda>_. []),
      image_open = (\<lambda>_. Inl ''cannot identify image file''),
      getsize = (\<lambda>_. Inl ''No such file or directory''),
      findall_count = (\<lambda>_ _. 0)\<rparr>"

definition short_document :: ParsedContract where
  \<comment> \<open>a document whose text was set to 30 characters after its construction\<close>
  "short_document =
     \<lparr>raw_text = ''This text is thirty chars long'', document_type = ''original'',
      sections_identified = []\<rparr>"

section \<open>Construction of a ContractChangeOutput\<close>

lemma new_ContractChangeOutput_Inr:
  "new_ContractChangeOutput secs tops summ = Inr c \<longleftrightarrow>
     (\<exists>s t m. field_sections_changed secs = Inr s \<and> field_topics_touched tops = Inr t \<and>
        field_summary_of_the_change summ = Inr m \<and>
        c = \<lparr>sections_changed = s, topics_touched = t, summary_of_the_change = m\<rparr>)"
  by (auto simp: new_ContractChangeOutput_def split: sum.splits)

lemma field_sections_changed_Inr:
  "field_sections_changed v = Inr s \<longleftrightarrow>
     v \<noteq> [] \<and> (\<forall>x\<in>set v. strip x \<noteq> []) \<and> s = unique_loop v {} []"
  by (cases v) (auto simp: field_sections_changed_def validate_sections_def list_all_iff)

lemma field_topics_touched_Inr:
  "field_topics_touched v = Inr s \<longleftrightarrow>
     v \<noteq> [] \<and> (\<forall>x\<in>set v. strip x \<noteq> []) \<and> s = unique_loop v {} []"
  by (cases v) (auto simp: field_topics_touched_def validate_topics_def list_all_iff)

lemma length_strip_le: "length (strip v) \<le> length v"
proof -
  have "length (dropWhile isspace (rev (dropWhile isspace v)))
          \<le> length (rev (dropWhile isspace v))"
    by (rule length_dropWhile_le)
  then have "length (strip v) \<le> length (dropWhile isspace v)"
    unfolding strip_def by simp
  also have "\<dots> \<le> length v"
    by (rule length_dropWhile_le)
  finally show ?thesis .
qed

lemma field_summary_of_the_change_Inr:
  "field_summary_of_the_change v = Inr m \<longleftrightarrow> 100 \<le> length (strip v) \<and> m = strip v"
  using length_strip_le [of v]
  by (auto simp: field_summary_of_the_change_def validate_summary_def)

lemma unique_loop_firsts: "unique_loop xs seen acc = acc @ firsts seen xs"
  by (induction xs arbitrary: seen acc) auto

lemma firsts_index:
  "firsts seen xs = map (\<lambda>i. xs ! i) (filter (\<lambda>i. xs ! i \<notin> seen \<union> set (take i xs)) [0..<length xs])"
proof (induction xs arbitrary: seen)
  case Nil
  then show ?case by simp
next
  case (Cons x xs)
  have up: "[0..<length (x # xs)] = 0 # map Suc [0..<length xs]"
    by (simp add: upt_conv_Cons map_Suc_upt del: upt_Suc)
  show ?case
    unfolding up
    by (auto simp add: Cons.IH filter_map comp_def intro!: arg_cong [where f = "map _"] filter_cong)
qed

lemma unique_loop_first_occurrences: "unique_loop v {} [] = first_occurrences v"
  by (simp add: unique_loop_firsts firsts_index first_occurrences_def)

lemma set_firsts: "set (firsts seen xs) = set xs - seen"
  by (induction xs arbitrary: seen) auto

lemma distinct_firsts: "distinct (firsts seen xs)"
  by (induction xs arbitrary: seen) (auto simp: set_firsts)

lemma firsts_distinct_id: "distinct xs \<Longrightarrow> set xs \<inter> seen = {} \<Longrightarrow> firsts seen xs = xs"
  by (induction xs arbitrary: seen) auto

lemma dropWhile_strip: "dropWhile isspace (strip s) = strip s"
proof (cases "dropWhile isspace s")
  case Nil
  show ?thesis unfolding strip_def Nil by simp
next
  case (Cons a u)
  then have "\<not> isspace a"
    by (metis hd_dropWhile list.sel(1) list.distinct(1))
  then have "strip s = a # rev (dropWhile isspace (rev u))"
    by (simp add: strip_def Cons dropWhile_append3)
  with \<open>\<not> isspace a\<close> show ?thesis by simp
qed

lemma strip_strip: "strip (strip s) = strip s"
proof -
  have "strip (strip s) = rev (dropWhile isspace (rev (strip s)))"
    by (simp add: strip_def [of "strip s"] dropWhile_strip)
  also have "\<dots> = strip s"
    by (simp add: strip_def)
  finally show ?thesis .
qed

lemma firsts_empty_Nil: "firsts {} xs = [] \<longleftrightarrow> xs = []"
  by (metis set_firsts Diff_empty set_empty)

lemma dropWhile_none: "\<forall>ch\<in>set xs. \<not> P ch \<Longrightarrow> dropWhile P xs = xs"
  by (cases xs) auto

lemma strip_no_space: "\<forall>ch\<in>set s. \<not> isspace ch \<Longrightarrow> strip s = s"
proof -
  assume a: "\<forall>ch\<in>set s. \<not> isspace ch"
  then have "dropWhile isspace s = s"
    by (rule dropWhile_none)
  moreover from a have "dropWhile isspace (rev s) = rev s"
    by (intro dropWhile_none) simp
  ultimately show ?thesis by (simp add: strip_def)
qed

lemma new_summary_too_short:
  "field_summary_of_the_change summ = Inl e \<Longrightarrow>
     \<exists>es. new_ContractChangeOutput secs tops summ = Inl es \<and> e \<in> set es"
  by (auto simp: new_ContractChangeOutput_def errors_of_def split: sum.splits)

text \<open>
  C3, as stated: every element of \<open>sections_changed\<close> and \<open>topics_touched\<close> of a
  constructed record equals its own whitespace-trimmed form.  The validators only test
  that the trimmed form is non-empty and store the element as given: a section
  identifier with surrounding blanks is accepted and kept untrimmed.
\<close>

theorem sections_stored_untrimmed:
  "new_ContractChangeOutput [''  Section 1.0  ''] [''Terms''] summary_100
     = Inr \<lparr>sections_changed = [''  Section 1.0  ''], topics_touched = [''Terms''],
            summary_of_the_change = summary_100\<rparr>
   \<and> strip ''  Section 1.0  '' \<noteq> ''  Section 1.0  ''"
  unfolding summary_100_def by code_simp

text \<open>
  C3, amended: every element of \<open>sections_changed\<close> and \<open>topics_touched\<close> of a
  constructed record is one of the strings given, stored as given, and its trimmed form
  is non-empty; both lists are free of duplicates, since the de-duplication happens at
  construction.
\<close>

theorem elements_nonblank_and_unique:
  assumes "new_ContractChangeOutput secs tops summ = Inr c"
  shows "(\<forall>s\<in>set (sections_changed c). s \<in> set secs \<and> strip s \<noteq> []) \<and>
         (\<forall>t\<in>set (topics_touched c). t \<in> set tops \<and> strip t \<noteq> []) \<and>
         distinct (sections_changed c) \<and> distinct (topics_touched c)"
  using assms
  by (auto simp: new_ContractChangeOutput_Inr field_sections_changed_Inr
      field_topics_touched_Inr unique_loop_firsts set_firsts distinct_firsts)

theorem elements_nonblank_and_unique_witness:
  "new_ContractChangeOutput [''  Section 1.0  '', ''Section 2.0'', ''Section 2.0'']
       [''Terms''] summary_100
     = Inr \<lparr>sections_changed = [''  Section 1.0  '', ''Section 2.0''],
            topics_touched = [''Terms''], summary_of_the_change = summary_100\<rparr>
   \<and> strip ''  Section 1.0  '' \<noteq> [] \<and> strip ''Section 2.0'' \<noteq> [] \<and> strip ''Terms'' \<noteq> []
   \<and> distinct [''  Section 1.0  '', ''Section 2.0'']"
proof -
  have h: "new_ContractChangeOutput [''  Section 1.0  '', ''Section 2.0'', ''Section 2.0'']
             [''Terms''] summary_100
     = Inr \<lparr>sections_changed = [''  Section 1.0  '', ''Section 2.0''],
            topics_touched = [''Terms''], summary_of_the_change = summary_100\<rparr>"
    unfolding summary_100_def by code_simp
  note r = elements_nonblank_and_unique [OF h, unfolded ContractChangeOutput.select_convs]
  from r have "strip ''  Section 1.0  '' \<noteq> [] \<and> strip ''Section 2.0'' \<noteq> []
               \<and> strip ''Terms'' \<noteq> [] \<and> distinct [''  Section 1.0  '', ''Section 2.0'']"
    by (simp del: distinct.simps)
  with h show ?thesis by blast
qed

text \<open>
  C4: the lists stored by a successful construction have no duplicates and keep the
  order of first occurrence: each is the list of the input's elements at the positions
  where a value occurs for the first time.  The input \<open>["A","B","A","C"]\<close> is stored as
  \<open>["A","B","C"]\<close>.
\<close>

theorem duplicates_removed_first_occurrence_order:
  assumes "new_ContractChangeOutput secs tops summ = Inr c"
  shows "distinct (sections_changed c) \<and> distinct (topics_touched c) \<and>
         sections_changed c = first_occurrences secs \<and>
         topics_touched c = first_occurrences tops \<and>
         (secs = [''A'', ''B'', ''A'', ''C''] \<longrightarrow> sections_changed c = [''A'', ''B'', ''C'']) \<and>
         (tops = [''A'', ''B'', ''A'', ''C''] \<longrightarrow> topics_touched c = [''A'', ''B'', ''C''])"
  using assms
  by (auto simp: new_ContractChangeOutput_Inr field_sections_changed_Inr
      field_topics_touched_Inr unique_loop_firsts distinct_firsts
      simp flip: unique_loop_first_occurrences)

theorem duplicates_removed_first_occurrence_order_witness:
  "new_ContractChangeOutput [''A'', ''B'', ''A'', ''C''] [''A'', ''B'', ''A'', ''C''] summary_100
     = Inr \<lparr>sections_changed = [''A'', ''B'', ''C''], topics_touched = [''A'', ''B'', ''C''],
            summary_of_the_change = summary_100\<rparr>
   \<and> distinct [''A'', ''B'', ''C'']
   \<and> [''A'', ''B'', ''C''] = first_occurrences [''A'', ''B'', ''A'', ''C'']"
proof -
  have h: "new_ContractChangeOutput [''A'', ''B'', ''A'', ''C''] [''A'', ''B'', ''A'', ''C'']
             summary_100
     = Inr \<lparr>sections_changed = [''A'', ''B'', ''C''], topics_touched = [''A'', ''B'', ''C''],
            summary_of_the_change = summary_100\<rparr>"
    unfolding summary_100_def by code_simp
  note r = duplicates_removed_first_occurrence_order
             [OF h, unfolded ContractChangeOutput.select_convs]
  from h r show ?thesis by blast
qed

text \<open>
  C5: with section and topic lists that pass their own checks, the construction
  succeeds if and only if the summary has at least 100 characters after trimming.  A
  summary of 99 characters is rejected with a validation error on the summary, whatever
  the other fields; a summary of exactly 100 characters, none of them whitespace, is
  accepted and stored.
\<close>

theorem construction_succeeds_iff_summary_100:
  "(secs \<noteq> [] \<and> (\<forall>s\<in>set secs. strip s \<noteq> []) \<and> tops \<noteq> [] \<and> (\<forall>t\<in>set tops. strip t \<noteq> [])
      \<longrightarrow> ((\<exists>c. new_ContractChangeOutput secs tops summ = Inr c)
             \<longleftrightarrow> 100 \<le> length (strip summ)))
   \<and> (length summ = 99 \<longrightarrow>
        (\<exists>e. new_ContractChangeOutput secs tops summ = Inl e
              \<and> too_short ''summary_of_the_change'' \<in> set e))
   \<and> (secs \<noteq> [] \<and> (\<forall>s\<in>set secs. strip s \<noteq> []) \<and> tops \<noteq> [] \<and> (\<forall>t\<in>set tops. strip t \<noteq> [])
        \<and> length summ = 100 \<and> (\<forall>ch\<in>set summ. \<not> isspace ch)
      \<longrightarrow> (\<exists>c. new_ContractChangeOutput secs tops summ = Inr c
                \<and> summary_of_the_change c = summ))"
proof (intro conjI impI)
  assume "secs \<noteq> [] \<and> (\<forall>s\<in>set secs. strip s \<noteq> []) \<and> tops \<noteq> [] \<and> (\<forall>t\<in>set tops. strip t \<noteq> [])"
  then show "(\<exists>c. new_ContractChangeOutput secs tops summ = Inr c)
               \<longleftrightarrow> 100 \<le> length (strip summ)"
    by (simp add: new_ContractChangeOutput_Inr field_sections_changed_Inr
        field_topics_touched_Inr field_summary_of_the_change_Inr)
next
  assume "length summ = 99"
  then have "field_summary_of_the_change summ = Inl (too_short ''summary_of_the_change'')"
    by (simp add: field_summary_of_the_change_def)
  then show "\<exists>e. new_ContractChangeOutput secs tops summ = Inl e
              \<and> too_short ''summary_of_the_change'' \<in> set e"
    by (rule new_summary_too_short)
next
  assume a: "secs \<noteq> [] \<and> (\<forall>s\<in>set secs. strip s \<noteq> []) \<and> tops \<noteq> []
        \<and> (\<forall>t\<in>set tops. strip t \<noteq> [])
        \<and> length summ = 100 \<and> (\<forall>ch\<in>set summ. \<not> isspace ch)"
  then have "strip summ = summ" by (simp add: strip_no_space)
  with a show "\<exists>c. new_ContractChangeOutput secs tops summ = Inr c
                 \<and> summary_of_the_change c = summ"
    by (simp add: new_ContractChangeOutput_Inr field_sections_changed_Inr
        field_topics_touched_Inr field_summary_of_the_change_Inr)
qed

theorem construction_succeeds_iff_summary_100_witness:
  "((\<exists>c. new_ContractChangeOutput [''Section 1.0''] [''Terms''] summary_100 = Inr c)
      \<longleftrightarrow> 100 \<le> length (strip summary_100))
   \<and> (\<exists>e. new_ContractChangeOutput [''Section 1.0''] [''Terms''] (replicate 99 (CHR ''x''))
            = Inl e
          \<and> too_short ''summary_of_the_change'' \<in> set e)
   \<and> (\<exists>c. new_ContractChangeOutput [''Section 1.0''] [''Terms''] summary_100 = Inr c
          \<and> summary_of_the_change c = summary_100)"
proof -
  have v: "[''Section 1.0''] \<noteq> [] \<and> (\<forall>s\<in>set [''Section 1.0'']. strip s \<noteq> []) \<and>
           [''Terms''] \<noteq> [] \<and> (\<forall>t\<in>set [''Terms'']. strip t \<noteq> [])"
    by code_simp
  have l99: "length (replicate 99 (CHR ''x'')) = 99" by simp
  have l100: "length summary_100 = 100 \<and> (\<forall>ch\<in>set summary_100. \<not> isspace ch)"
    by (simp add: summary_100_def isspace_def)
  from construction_succeeds_iff_summary_100 [of "[''Section 1.0'']" "[''Terms'']" summary_100]
    v l100
  have a: "((\<exists>c. new_ContractChangeOutput [''Section 1.0''] [''Terms''] summary_100 = Inr c)
      \<longleftrightarrow> 100 \<le> length (strip summary_100))"
    and c: "(\<exists>c. new_ContractChangeOutput [''Section 1.0''] [''Terms''] summary_100 = Inr c
          \<and> summary_of_the_change c = summary_100)"
    by blast+
  from construction_succeeds_iff_summary_100
         [of "[''Section 1.0'']" "[''Terms'']" "replicate 99 (CHR ''x'')"] l99
  have b: "(\<exists>e. new_ContractChangeOutput [''Section 1.0''] [''Terms''] (replicate 99 (CHR ''x''))
                 = Inl e
              \<and> too_short ''summary_of_the_change'' \<in> set e)"
    by blast
  from a b c show ?thesis by blast
qed

text \<open>
  C9: dumping a successfully constructed record and validating the dump again gives the
  same record: the validators change nothing on data they have already validated.
\<close>

theorem dump_and_validate_roundtrip:
  assumes "new_ContractChangeOutput secs tops summ = Inr c"
  shows "model_validate (model_dump c) = Inr c"
  using assms
  by (auto simp: new_ContractChangeOutput_Inr field_sections_changed_Inr
      field_topics_touched_Inr field_summary_of_the_change_Inr model_validate_def
      model_dump_def strip_strip unique_loop_firsts set_firsts firsts_distinct_id
      distinct_firsts firsts_empty_Nil)

theorem dump_and_validate_roundtrip_witness:
  "new_ContractChangeOutput [''A'', ''B'', ''A''] [''Terms''] ('' '' @ summary_100)
     = Inr \<lparr>sections_changed = [''A'', ''B''], topics_touched = [''Terms''],
            summary_of_the_change = summary_100\<rparr>
   \<and> model_validate (model_dump \<lparr>sections_changed = [''A'', ''B''],
         topics_touched = [''Terms''], summary_of_the_change = summary_100\<rparr>)
     = Inr \<lparr>sections_changed = [''A'', ''B''], topics_touched = [''Terms''],
            summary_of_the_change = summary_100\<rparr>"
proof -
  have h: "new_ContractChangeOutput [''A'', ''B'', ''A''] [''Terms''] ('' '' @ summary_100)
     = Inr \<lparr>sections_changed = [''A'', ''B''], topics_touched = [''Terms''],
            summary_of_the_change = summary_100\<rparr>"
    unfolding summary_100_def by code_simp
  from h dump_and_validate_roundtrip [OF h] show ?thesis by simp
qed

section \<open>Output validation\<close>

text \<open>
  C10: for a successfully constructed record and any two parsed documents,
  \<open>validate_output\<close> reports no error and \<open>is_valid\<close>; neither the "Summary too short"
  error nor the warnings for an empty section or topic list can appear, because the
  construction leaves a trimmed summary of at least 100 characters and non-empty lists.
\<close>

theorem validate_output_no_errors_after_construction:
  assumes "new_ContractChangeOutput secs tops summ = Inr c"
  shows "errors (validate_output c original amendment) = [] \<and>
         is_valid (validate_output c original amendment) \<and>
         NoSectionsChanged \<notin> set (warnings (validate_output c original amendment)) \<and>
         NoTopicsIdentified \<notin> set (warnings (validate_output c original amendment))"
  using assms
  by (auto simp: new_ContractChangeOutput_Inr field_sections_changed_Inr
      field_topics_touched_Inr field_summary_of_the_change_Inr validate_output_def Let_def
      unique_loop_firsts firsts_empty_Nil)

theorem validate_output_no_errors_after_construction_witness:
  "new_ContractChangeOutput [''Section 1.0''] [''Terms''] summary_100
     = Inr \<lparr>sections_changed = [''Section 1.0''], topics_touched = [''Terms''],
            summary_of_the_change = summary_100\<rparr>
   \<and> errors (validate_output
         \<lparr>sections_changed = [''Section 1.0''], topics_touched = [''Terms''],
            summary_of_the_change = summary_100\<rparr>
         \<lparr>raw_text = ''Section 1.0 Terms'', document_type = ''original'',
            sections_identified = []\<rparr>
         \<lparr>raw_text = ''Section 1.0 New terms'', document_type = ''amendment'',
            sections_identified = []\<rparr>) = []
   \<and> is_valid (validate_output
         \<lparr>sections_changed = [''Section 1.0''], topics_touched = [''Terms''],
            summary_of_the_change = summary_100\<rparr>
         \<lparr>raw_text = ''Section 1.0 Terms'', document_type = ''original'',
            sections_identified = []\<rparr>
         \<lparr>raw_text = ''Section 1.0 New terms'', document_type = ''amendment'',
            sections_identified = []\<rparr>)"
proof -
  have h: "new_ContractChangeOutput [''Section 1.0''] [''Terms''] summary_100
     = Inr \<lparr>sections_changed = [''Section 1.0''], topics_touched = [''Terms''],
            summary_of_the_change = summary_100\<rparr>"
    unfolding summary_100_def by code_simp
  from h validate_output_no_errors_after_construction [OF h] show ?thesis by blast
qed

section \<open>Input validation\<close>

lemma errors_check_text_length:
  "\<exists>es. errors (check_text_length g c r) = errors r @ es"
  by (simp add: check_text_length_def Let_def)

lemma errors_check_text_quality:
  "\<exists>es. errors (check_text_quality c r) = errors r @ es"
  by (simp add: check_text_quality_def Let_def split: sum.splits)

lemma errors_check_sections: "errors (check_sections c r) = errors r"
  by (simp add: check_sections_def Let_def)

lemma errors_check_pydantic_model:
  "\<exists>es. errors (check_pydantic_model c r) = errors r @ es"
  by (simp add: check_pydantic_model_def Let_def split: sum.splits)

lemma errors_check_file_integrity:
  "\<exists>es. errors (check_file_integrity g env p r) = errors r @ es"
  by (simp add: check_file_integrity_def Let_def split: sum.splits prod.splits)

lemma errors_check_file_size:
  "\<exists>es. errors (check_file_size g env p r) = errors r @ es"
  by (simp add: check_file_size_def Let_def split: sum.splits)

lemma errors_check_sensitive_data: "errors (check_sensitive_data env c r) = errors r"
  by (simp add: check_sensitive_data_def Let_def)

lemma text_too_short_first:
  "int (length (raw_text c)) < min_text_length g \<Longrightarrow>
     errors (check_text_length g c
        \<lparr>is_valid = True, checks_passed = 0, total_checks = 0, warnings = [],
                errors = [], details = []\<rparr>) = [TextTooShort (length (raw_text c)) (min_text_length g)]"
  by (simp add: check_text_length_def Let_def)

lemma errors_validate_input:
  "\<exists>es. errors (validate_input g env c fp) =
     errors (check_text_length g c
        \<lparr>is_valid = True, checks_passed = 0, total_checks = 0, warnings = [],
                errors = [], details = []\<rparr>) @ es"
proof -
  define r1 where "r1 = check_text_length g c
        \<lparr>is_valid = True, checks_passed = 0, total_checks = 0, warnings = [],
                errors = [], details = []\<rparr>"
  define r4 where "r4 = check_pydantic_model c (check_sections c (check_text_quality c r1))"
  define r5 where "r5 = (case fp of None \<Rightarrow> r4
                | Some p \<Rightarrow>
                    if p \<noteq> [] then check_file_size g env p (check_file_integrity g env p r4)
                    else r4)"
  obtain e2 where e2: "errors (check_text_quality c r1) = errors r1 @ e2"
    using errors_check_text_quality by blast
  obtain e4 where e4: "errors r4 = errors r1 @ e2 @ e4"
    unfolding r4_def using errors_check_pydantic_model [of c "check_sections c (check_text_quality c r1)"]
    by (auto simp: errors_check_sections e2)
  have "\<exists>e5. errors r5 = errors r4 @ e5"
  proof (cases fp)
    case None
    then show ?thesis by (simp add: r5_def)
  next
    case (Some p)
    show ?thesis
    proof (cases "p = []")
      case True
      with Some show ?thesis by (simp add: r5_def)
    next
      case False
      obtain a where a: "errors (check_file_integrity g env p r4) = errors r4 @ a"
        using errors_check_file_integrity by blast
      obtain b where "errors (check_file_size g env p (check_file_integrity g env p r4))
          = errors (check_file_integrity g env p r4) @ b"
        using errors_check_file_size by blast
      with a Some False show ?thesis by (simp add: r5_def)
    qed
  qed
  then obtain e5 where e5: "errors r5 = errors r4 @ e5" by blast
  have "errors (validate_input g env c fp) = errors r5"
    unfolding validate_input_def Let_def r5_def r4_def r1_def
    by (simp add: errors_check_sensitive_data)
  with e4 e5 show ?thesis by (simp add: r1_def)
qed

lemma text_too_short_text_30_50:
  "text_too_short_text 30 50 = ''Text too short (30 chars, minimum 50)''"
  by code_simp

text \<open>
  C7: \<open>validate_input\<close> returns \<open>is_valid\<close> true exactly when its list of errors is
  empty, whatever the warnings.  With the default limits, a document whose text has 30
  characters is invalid and its errors hold the "Text too short" message with the
  length 30 and the minimum 50, whose text reads "Text too short (30 chars, minimum 50)".
\<close>

theorem validate_input_valid_iff_no_errors:
  "(is_valid (validate_input g env c fp) \<longleftrightarrow> errors (validate_input g env c fp) = [])
   \<and> (length (raw_text c) = 30 \<longrightarrow>
        \<not> is_valid (validate_input default_guardrails env c fp)
        \<and> TextTooShort 30 50 \<in> set (errors (validate_input default_guardrails env c fp))
        \<and> text_too_short_text 30 50 = ''Text too short (30 chars, minimum 50)'')"
proof (intro conjI impI)
  show "is_valid (validate_input g env c fp) \<longleftrightarrow> errors (validate_input g env c fp) = []"
    by (simp add: validate_input_def Let_def)
next
  assume l: "length (raw_text c) = 30"
  have m: "min_text_length default_guardrails = 50"
    by (simp add: default_guardrails_def new_ContractGuardrails_def)
  obtain es where "errors (validate_input default_guardrails env c fp)
      = errors (check_text_length default_guardrails c
        \<lparr>is_valid = True, checks_passed = 0, total_checks = 0, warnings = [],
                errors = [], details = []\<rparr>) @ es"
    using errors_validate_input by blast
  then have e: "errors (validate_input default_guardrails env c fp) = TextTooShort 30 50 # es"
    using l m by (simp add: text_too_short_first)
  then show "TextTooShort 30 50 \<in> set (errors (validate_input default_guardrails env c fp))"
    by simp
  have "is_valid (validate_input default_guardrails env c fp)
          \<longleftrightarrow> errors (validate_input default_guardrails env c fp) = []"
    by (simp add: validate_input_def Let_def)
  with e show "\<not> is_valid (validate_input default_guardrails env c fp)" by simp
  show "text_too_short_text 30 50 = ''Text too short (30 chars, minimum 50)''"
    by (rule text_too_short_text_30_50)
qed

theorem validate_input_valid_iff_no_errors_witness:
  "length (raw_text short_document) = 30
   \<and> \<not> is_valid (validate_input default_guardrails no_files short_document None)
   \<and> TextTooShort 30 50
        \<in> set (errors (validate_input default_guardrails no_files short_document None))
   \<and> errors (validate_input default_guardrails no_files short_document None)
       = [TextTooShort 30 50, TooFewWords 6, PydanticValidationFailed [too_short ''raw_text'']]"
proof -
  have l: "length (raw_text short_document) = 30"
    by (simp add: short_document_def)
  have e: "errors (validate_input default_guardrails no_files short_document None)
       = [TextTooShort 30 50, TooFewWords 6, PydanticValidationFailed [too_short ''raw_text'']]"
    by code_simp
  from validate_input_valid_iff_no_errors
         [of default_guardrails no_files short_document None] l
  have "\<not> is_valid (validate_input default_guardrails no_files short_document None)
        \<and> TextTooShort 30 50
        \<in> set (errors (validate_input default_guardrails no_files short_document None))"
    by blast
  with l e show ?thesis by blast
qed

section \<open>Alignment with the context\<close>


lemma before_first_absent: "\<not> sublist sep s \<Longrightarrow> before_first sep s = s"
proof (induction s)
  case Nil
  then show ?case by simp
next
  case (Cons c cs)
  then show ?case by (auto simp: sublist_Cons_right)
qed







section \<open>Evaluation\<close>











text \<open>
  C2, evaluated on the code.  The second example output is well-formed: it and the
  documents and the context are what the constructors return.  It covers one of the
  two change areas, so its completeness is 50, below 70; \<open>_generate_recommendations\<close>
  then takes \<open>len\<close> of the number stored under \<open>sections_changed\<close> in the details, and
  \<open>evaluate_output\<close> ends in a \<open>TypeError\<close> instead of returning recommendations.
\<close>

theorem evaluate_output_raises_below_70_completeness:
  "new_ContractChangeOutput [''Section 2.1 - Payment Terms''] [''Payment Period'']
       example_summary = Inr example_partial_changes
   \<and> new_ParsedContract example_original_text ''original''
        [''Section 2.1 - Payment Terms'', ''Section 4.3 - Confidentiality'']
       = Inr example_original
   \<and> new_ParsedContract example_amendment_text ''amendment''
        [''Section 2.1 - Payment Terms'', ''Section 4.3 - Confidentiality'']
       = Inr example_amendment
   \<and> new_AgentContext example_structure
        [(''Section 2.1'', ''Section 2.1''), (''Section 4.3'', ''Section 4.3'')]
        [''Section 2.1 - Payment Terms'', ''Section 4.3 - Confidentiality'']
        ''The amendment revises the payment terms section and the confidentiality section.''
       = Inr example_context
   \<and> dict_item (dimension_scores
         (run_dimensions ''2026-01-01T00:00:00'' example_partial_changes example_original
            example_amendment example_context)) ''completeness'' = Inr 50
   \<and> evaluate_output ''2026-01-01T00:00:00'' example_partial_changes example_original
        example_amendment example_context = Inl TypeError"
  by code_simp



end
